theory Spec2Isabelle
  imports Complex_Main "HOL-Library.Multiset" "HOL-Library.Log_Nat"
begin

section \<open>Raster value model\<close>

text \<open>
  The notebook \<^verbatim>\<open>DANA-EO.ipynb\<close> computes on Earth Engine images. An image is a list of
  named bands in band order; a band gives every grid cell either a sample or nothing (the
  cell is masked). Samples are modelled as real numbers, so arithmetic is exact; the
  rounding of the library's floating-point samples is modelled apart, in the section on
  binary64 arithmetic, for the one statement that turns on it. A geometry is the list of
  grid cells it covers. Band names are unique within an image; a lookup by name takes the
  first band of that name.
\<close>

type_synonym pixel = nat
type_synonym band = "pixel \<Rightarrow> real option"
type_synonym image = "(string \<times> band) list"
type_synonym geometry = "pixel list"

text \<open>
  The failures of the library calls the notebook makes: a band pattern that matches no
  band, operands whose band counts do not fit, a dictionary key that is absent, a null
  where a number is needed, a list index out of range, a concatenation of no images.
\<close>

datatype error =
    BandNotFound string
  | BandCountMismatch nat nat
  | KeyNotFound string
  | NullNumber string
  | IndexOutOfRange nat
  | NoImages

text \<open>
  A numeric constant handed to a comparison is a Python float: finite or infinite.
\<close>

datatype pyfloat = NegInf | Finite real | PosInf

definition and_then :: "error + 'a \<Rightarrow> ('a \<Rightarrow> error + 'b) \<Rightarrow> error + 'b" where
  "and_then r f = (case r of Inl e \<Rightarrow> Inl e | Inr x \<Rightarrow> f x)"

fun collect :: "(error + 'a) list \<Rightarrow> error + 'a list" where
  "collect [] = Inr []"
| "collect (r # rs) = and_then r (\<lambda>x. and_then (collect rs) (\<lambda>xs. Inr (x # xs)))"

section \<open>Library operations used by the notebook\<close>

text \<open>
  Each definition follows the documented behaviour of the Earth Engine method of the same
  name. An operation on an image keeps the mask: a masked cell stays masked.
\<close>

definition bandNames :: "image \<Rightarrow> string list" where
  "bandNames img = map fst img"

definition map_samples :: "(real \<Rightarrow> real) \<Rightarrow> image \<Rightarrow> image" where
  "map_samples f img = map (\<lambda>(n, b). (n, \<lambda>p. map_option f (b p))) img"

text \<open>\<^verbatim>\<open>image.subtract(number)\<close>, \<^verbatim>\<open>image.add(number)\<close>, \<^verbatim>\<open>image.multiply(number)\<close>.\<close>

definition subtract_num :: "image \<Rightarrow> real \<Rightarrow> image" where
  "subtract_num img c = map_samples (\<lambda>v. v - c) img"

definition add_num :: "image \<Rightarrow> real \<Rightarrow> image" where
  "add_num img c = map_samples (\<lambda>v. v + c) img"

definition multiply_num :: "image \<Rightarrow> real \<Rightarrow> image" where
  "multiply_num img c = map_samples (\<lambda>v. v * c) img"

text \<open>
  \<^verbatim>\<open>image.divide(number)\<close>: the library divides the first value by the second and returns
  0 for a division by 0.
\<close>

definition ee_divide :: "real \<Rightarrow> real \<Rightarrow> real" where
  "ee_divide a b = (if b = 0 then 0 else a / b)"

definition divide_num :: "image \<Rightarrow> real \<Rightarrow> image" where
  "divide_num img c = map_samples (\<lambda>v. ee_divide v c) img"

text \<open>\<^verbatim>\<open>image.gt(c)\<close>, \<^verbatim>\<open>image.lte(c)\<close>, \<^verbatim>\<open>image.neq(c)\<close>: 1 where the comparison holds, else 0.\<close>

fun above :: "real \<Rightarrow> pyfloat \<Rightarrow> bool" where
  "above v NegInf = True"
| "above v (Finite c) = (c < v)"
| "above v PosInf = False"

definition gt_num :: "image \<Rightarrow> pyfloat \<Rightarrow> image" where
  "gt_num img c = map_samples (\<lambda>v. if above v c then 1 else 0) img"

definition lte_num :: "image \<Rightarrow> pyfloat \<Rightarrow> image" where
  "lte_num img c = map_samples (\<lambda>v. if above v c then 0 else 1) img"

definition neq_num :: "image \<Rightarrow> real \<Rightarrow> image" where
  "neq_num img c = map_samples (\<lambda>v. if v \<noteq> c then 1 else 0) img"

text \<open>
  A binary operation on two images works on matched pairs of bands. An image with one band
  is used against every band of the other; images with the same number of bands are paired
  in band order; any other pair of band counts is an error. The result's bands are named
  for the longer operand, and for the first when the counts are equal. A cell of the
  result is masked where either operand is.
\<close>

definition pointwise :: "(real \<Rightarrow> real \<Rightarrow> real) \<Rightarrow> band \<Rightarrow> band \<Rightarrow> band" where
  "pointwise f x y =
     (\<lambda>p. case x p of None \<Rightarrow> None
          | Some u \<Rightarrow> (case y p of None \<Rightarrow> None | Some v \<Rightarrow> Some (f u v)))"

definition combine :: "(real \<Rightarrow> real \<Rightarrow> real) \<Rightarrow> image \<Rightarrow> image \<Rightarrow> error + image" where
  "combine f a b =
     (if length a = length b
        then Inr (map (\<lambda>((n, x), (m, y)). (n, pointwise f x y)) (zip a b))
      else if length b = 1
        then Inr (map (\<lambda>(n, x). (n, pointwise f x (snd (hd b)))) a)
      else if length a = 1
        then Inr (map (\<lambda>(m, y). (m, pointwise f (snd (hd a)) y)) b)
      else Inl (BandCountMismatch (length a) (length b)))"

definition add_img :: "image \<Rightarrow> image \<Rightarrow> error + image" where
  "add_img = combine (\<lambda>u v. u + v)"

definition subtract_img :: "image \<Rightarrow> image \<Rightarrow> error + image" where
  "subtract_img = combine (\<lambda>u v. u - v)"

definition multiply_img :: "image \<Rightarrow> image \<Rightarrow> error + image" where
  "multiply_img = combine (\<lambda>u v. u * v)"

definition And_img :: "image \<Rightarrow> image \<Rightarrow> error + image" where
  "And_img = combine (\<lambda>u v. if u \<noteq> 0 \<and> v \<noteq> 0 then 1 else 0)"

text \<open>
  \<^verbatim>\<open>image.updateMask(mask)\<close>: a cell stays valid only where the mask image is valid and not
  zero. A mask with one band applies to every band of the image; otherwise it needs as many
  bands as the image. The image keeps its band names.
\<close>

definition mask_band :: "band \<Rightarrow> band \<Rightarrow> band" where
  "mask_band x m =
     (\<lambda>p. case m p of None \<Rightarrow> None | Some v \<Rightarrow> (if v \<noteq> 0 then x p else None))"

definition updateMask :: "image \<Rightarrow> image \<Rightarrow> error + image" where
  "updateMask img msk =
     (if length msk = 1
        then Inr (map (\<lambda>(n, x). (n, mask_band x (snd (hd msk)))) img)
      else if length msk = length img
        then Inr (map (\<lambda>((n, x), (m, y)). (n, mask_band x y)) (zip img msk))
      else Inl (BandCountMismatch (length img) (length msk)))"

text \<open>
  \<^verbatim>\<open>image.select(names)\<close> keeps the named bands in the order asked; a name that matches no
  band is an error. \<^verbatim>\<open>image.select([i])\<close> selects by position.
\<close>

definition select_band :: "image \<Rightarrow> string \<Rightarrow> error + (string \<times> band)" where
  "select_band img n =
     (case map_of img n of None \<Rightarrow> Inl (BandNotFound n) | Some b \<Rightarrow> Inr (n, b))"

definition select :: "image \<Rightarrow> string list \<Rightarrow> error + image" where
  "select img names = collect (map (select_band img) names)"

definition select_index :: "image \<Rightarrow> nat \<Rightarrow> error + image" where
  "select_index img i = (if i < length img then Inr [img ! i] else Inl (IndexOutOfRange i))"

text \<open>\<^verbatim>\<open>image.clip(geometry)\<close> masks every cell outside the geometry.\<close>

definition clip :: "image \<Rightarrow> geometry \<Rightarrow> image" where
  "clip img g = map (\<lambda>(n, b). (n, \<lambda>p. if p \<in> set g then b p else None)) img"

text \<open>
  \<^verbatim>\<open>image.reduce(ee.Reducer.mean())\<close>: at each cell the mean of the band values that are
  valid there; the cell is masked when no band is valid. The result has one band, named
  \<^verbatim>\<open>mean\<close>.
\<close>

definition valid_at :: "image \<Rightarrow> pixel \<Rightarrow> real list" where
  "valid_at img p = concat (map (\<lambda>(n, b). case b p of None \<Rightarrow> [] | Some v \<Rightarrow> [v]) img)"

definition mean_of :: "real list \<Rightarrow> real option" where
  "mean_of vs = (if vs = [] then None else Some (sum_list vs / real (length vs)))"

definition reduce_mean :: "image \<Rightarrow> image" where
  "reduce_mean img = [(''mean'', \<lambda>p. mean_of (valid_at img p))]"

text \<open>
  \<^verbatim>\<open>ee.Image.cat(images)\<close> puts the bands of the images one after the other and fails
  when it is given no image; \<^verbatim>\<open>image.rename(names)\<close> renames the bands in order and needs
  one name per band. The notebook renames every concatenation at once, so the names
  \<^verbatim>\<open>cat\<close> would give to bands of the same name never show.
\<close>

definition cat :: "image list \<Rightarrow> error + image" where
  "cat imgs = (if imgs = [] then Inl NoImages else Inr (concat imgs))"

definition rename :: "image \<Rightarrow> string list \<Rightarrow> error + image" where
  "rename img names =
     (if length names = length img then Inr (zip names (map snd img))
      else Inl (BandCountMismatch (length img) (length names)))"

section \<open>Elevation risk classes\<close>

text \<open>
  From \<^verbatim>\<open>main\<close>:
  \<^verbatim>\<open>
  dem = ee.Image("USGS/SRTMGL1_003").select([0]).clip(ROI)
  low_risk = dem.gt(50)
  medium_risk = dem.lte(50).And(dem.gt(10))
  high_risk = dem.lte(10)
  flood_risk_vis = low_risk.multiply(1).add(medium_risk.multiply(2)).add(high_risk.multiply(3))
  \<close>
  The elevation image is the argument \<open>srtm\<close>.
\<close>

definition flood_risk_vis :: "image \<Rightarrow> geometry \<Rightarrow> error + image" where
  "flood_risk_vis srtm ROI =
     and_then (select_index srtm 0) (\<lambda>sel.
       let dem = clip sel ROI;
           low_risk = gt_num dem (Finite 50)
       in and_then (And_img (lte_num dem (Finite 50)) (gt_num dem (Finite 10))) (\<lambda>medium_risk.
            let high_risk = lte_num dem (Finite 10)
            in and_then (add_img (multiply_num low_risk 1) (multiply_num medium_risk 2)) (\<lambda>s.
                 add_img s (multiply_num high_risk 3))))"

section \<open>Region statistics\<close>

text \<open>
  \<^verbatim>\<open>image.reduceRegion(reducer=ee.Reducer.minMax(), geometry, scale, bestEffort=True)\<close> gives
  a dictionary with the keys \<^verbatim>\<open><band>_min\<close> and \<^verbatim>\<open><band>_max\<close> for every band of the
  image: the minimum and the maximum of the band's valid samples in the geometry, and null
  for a band with no valid sample there. The model has one grid, whose cells the geometry
  lists; \<open>scale\<close> names that grid and is not interpreted further.
\<close>

definition samples_in :: "band \<Rightarrow> geometry \<Rightarrow> real list" where
  "samples_in b g = concat (map (\<lambda>p. case b p of None \<Rightarrow> [] | Some v \<Rightarrow> [v]) g)"

definition min_of :: "real list \<Rightarrow> real option" where
  "min_of vs = (if vs = [] then None else Some (Min (set vs)))"

definition max_of :: "real list \<Rightarrow> real option" where
  "max_of vs = (if vs = [] then None else Some (Max (set vs)))"

definition reduceRegion_minMax :: "image \<Rightarrow> geometry \<Rightarrow> nat \<Rightarrow> (string \<times> real option) list" where
  "reduceRegion_minMax img g scale =
     concat (map (\<lambda>(n, b). [(n @ ''_min'', min_of (samples_in b g)),
                             (n @ ''_max'', max_of (samples_in b g))]) img)"

text \<open>
  \<^verbatim>\<open>ee.Number(stats.get(key))\<close>: the number under the key. A key that is absent and a null
  value both fail once the number is used.
\<close>

definition get_number :: "(string \<times> real option) list \<Rightarrow> string \<Rightarrow> error + real" where
  "get_number d k =
     (case map_of d k of
        None \<Rightarrow> Inl (KeyNotFound k)
      | Some None \<Rightarrow> Inl (NullNumber k)
      | Some (Some v) \<Rightarrow> Inr v)"

section \<open>Radiometric matcher\<close>

text \<open>
  \<^verbatim>\<open>
  def histogram_match_simple(pre_flood_image, post_flood_image, band_name, region, scale):
      def normalize(image, band_name):
          stats = image.reduceRegion(reducer=ee.Reducer.minMax(), geometry=region,
                                     scale=scale, bestEffort=True)
          min_val = ee.Number(stats.get(f"{band_name}_min"))
          max_val = ee.Number(stats.get(f"{band_name}_max"))
          return image.select(band_name).subtract(min_val).divide(max_val.subtract(min_val))
      pre_flood_normalized = normalize(pre_flood_image, band_name)
      post_flood_normalized = normalize(post_flood_image, band_name)
      post_stats = post_flood_image.reduceRegion(...)
      post_min = ee.Number(post_stats.get(f"{band_name}_min"))
      post_max = ee.Number(post_stats.get(f"{band_name}_max"))
      matched = pre_flood_normalized.multiply(post_max.subtract(post_min)).add(post_min)
      return matched.rename(f"{band_name}_matched")
  \<close>
  The inner function \<^verbatim>\<open>normalize\<close> reads \<^verbatim>\<open>region\<close> and \<^verbatim>\<open>scale\<close> from the enclosing call;
  here they are its first two arguments. The library evaluates lazily: only the expression
  that is returned is ever computed, so \<^verbatim>\<open>post_flood_normalized\<close>, which the returned
  expression does not mention, can neither fail nor contribute.
\<close>

definition normalize :: "geometry \<Rightarrow> nat \<Rightarrow> image \<Rightarrow> string \<Rightarrow> error + image" where
  "normalize region scale img band_name =
     (let stats = reduceRegion_minMax img region scale
      in and_then (get_number stats (band_name @ ''_min'')) (\<lambda>min_val.
         and_then (get_number stats (band_name @ ''_max'')) (\<lambda>max_val.
         and_then (select img [band_name]) (\<lambda>sel.
           Inr (divide_num (subtract_num sel min_val) (max_val - min_val))))))"

definition histogram_match_simple ::
  "image \<Rightarrow> image \<Rightarrow> string \<Rightarrow> geometry \<Rightarrow> nat \<Rightarrow> error + image" where
  "histogram_match_simple pre_flood_image post_flood_image band_name region scale =
     (let pre_flood_normalized = normalize region scale pre_flood_image band_name;
          post_flood_normalized = normalize region scale post_flood_image band_name;
          post_stats = reduceRegion_minMax post_flood_image region scale
      in and_then pre_flood_normalized (\<lambda>normalized.
         and_then (get_number post_stats (band_name @ ''_min'')) (\<lambda>post_min.
         and_then (get_number post_stats (band_name @ ''_max'')) (\<lambda>post_max.
           rename (add_num (multiply_num normalized (post_max - post_min)) post_min)
                  [band_name @ ''_matched'']))))"

section \<open>Fusion sharpener\<close>

text \<open>
  \<^verbatim>\<open>
  def pansharpen_simple_mean(multispectral, panchromatic, bands):
      multispectral_mean = multispectral.reduce(ee.Reducer.mean())
      pansharpened_bands = [
          multispectral.select([band]).add(panchromatic.subtract(multispectral_mean))
          for band in bands
      ]
      return ee.Image.cat(pansharpened_bands).rename(bands)
  \<close>
  The mean is taken over every band of \<^verbatim>\<open>multispectral\<close>; \<^verbatim>\<open>bands\<close> only chooses which
  bands are sharpened and returned. With an empty band list the concatenation fails.
\<close>

definition pansharpen_simple_mean :: "image \<Rightarrow> image \<Rightarrow> string list \<Rightarrow> error + image" where
  "pansharpen_simple_mean multispectral panchromatic bands =
     (let multispectral_mean = reduce_mean multispectral
      in and_then
           (collect (map (\<lambda>band.
              and_then (select multispectral [band]) (\<lambda>sel.
              and_then (subtract_img panchromatic multispectral_mean) (\<lambda>detail.
                add_img sel detail))) bands))
           (\<lambda>pansharpened_bands.
              and_then (cat pansharpened_bands) (\<lambda>stacked. rename stacked bands)))"

text \<open>
  The band that the sharpener makes of a band \<open>b\<close>, a reference band \<open>r\<close> and a mean band
  \<open>m\<close>: \<open>b + (r - m)\<close>, valid where all three are.
\<close>

definition inject :: "band \<Rightarrow> band \<Rightarrow> band \<Rightarrow> band" where
  "inject r m b = pointwise (\<lambda>u v. u + v) b (pointwise (\<lambda>u v. u - v) r m)"

section \<open>Area aggregator\<close>

text \<open>
  \<^verbatim>\<open>image.reduceRegion(reducer=ee.Reducer.sum(), geometry, scale, maxPixels)\<close> gives a
  dictionary with one key per band: the sum of the band's valid samples in the geometry,
  which is 0 when there is none. At the scale of 10 metres the limit of \<^verbatim>\<open>1e13\<close> cells
  stands for more ground than the Earth has, so the limit is not modelled.
\<close>

definition reduceRegion_sum :: "image \<Rightarrow> geometry \<Rightarrow> nat \<Rightarrow> (string \<times> real) list" where
  "reduceRegion_sum img g scale = map (\<lambda>(n, b). (n, sum_list (samples_in b g))) img"

text \<open>
  \<^verbatim>\<open>ee.Image.pixelArea()\<close>: one band, valid everywhere, whose sample is the ground area of
  the cell in square metres. The areas come from the grid and are a parameter here.
\<close>

definition pixelArea :: "(pixel \<Rightarrow> real) \<Rightarrow> image" where
  "pixelArea cell_area = [(''area'', \<lambda>p. Some (cell_area p))]"

text \<open>\<^verbatim>\<open>list.get(i)\<close> fails on an index that is out of range.\<close>

definition list_get :: "'a list \<Rightarrow> nat \<Rightarrow> error + 'a" where
  "list_get xs i = (if i < length xs then Inr (xs ! i) else Inl (IndexOutOfRange i))"

text \<open>
  \<^verbatim>\<open>
  def calculate_area(image, roi, threshold=0):
      significant_area = image.updateMask(image.gt(threshold))
      pixel_area = significant_area.multiply(ee.Image.pixelArea())
      area_stats = pixel_area.reduceRegion(reducer=ee.Reducer.sum(), geometry=roi,
                                           scale=10, maxPixels=1e13)
      area_stats_dict = area_stats.getInfo()
      band_name = image.bandNames().get(0).getInfo()
      if band_name not in area_stats_dict:
          print(...)
          return 0
      area_km2 = area_stats_dict[band_name] / 1e6
      return area_km2
  \<close>
  The last four lines are \<open>area_km2_of\<close>.
\<close>

definition area_km2_of :: "(string \<times> real) list \<Rightarrow> string \<Rightarrow> real" where
  "area_km2_of area_stats_dict band_name =
     (case map_of area_stats_dict band_name of
        None \<Rightarrow> 0
      | Some v \<Rightarrow> v / 1000000)"

definition calculate_area :: "(pixel \<Rightarrow> real) \<Rightarrow> image \<Rightarrow> geometry \<Rightarrow> pyfloat \<Rightarrow> error + real" where
  "calculate_area cell_area img roi threshold =
     and_then (updateMask img (gt_num img threshold)) (\<lambda>significant_area.
     and_then (multiply_img significant_area (pixelArea cell_area)) (\<lambda>pixel_area.
       let area_stats_dict = reduceRegion_sum pixel_area roi 10
       in and_then (list_get (bandNames img) 0) (\<lambda>band_name.
            Inr (area_km2_of area_stats_dict band_name))))"

text \<open>A band restricted to its samples above a threshold.\<close>

definition significant :: "pyfloat \<Rightarrow> band \<Rightarrow> band" where
  "significant t x =
     (\<lambda>p. case x p of None \<Rightarrow> None | Some v \<Rightarrow> (if above v t then Some v else None))"

section \<open>Index engine\<close>

text \<open>
  \<^verbatim>\<open>
  def calculate_indices(image):
      ndvi = image.normalizedDifference(['B8', 'B4']).rename('NDVI')  # NIR and RED
      ndwi = image.normalizedDifference(['B3', 'B8']).rename('NDWI')  # GREEN and NIR
      ndbi = image.normalizedDifference(['B11', 'B8']).rename('NDBI')  # SWIR and NIR
      return image.addBands([ndvi, ndwi, ndbi])
  \<close>
  The three index bands are the definitions \<open>ndvi\<close>, \<open>ndwi\<close> and \<open>ndbi\<close>; \<^verbatim>\<open>main\<close> selects
  each of them again by its name from the returned image.
\<close>

text \<open>
  Modelled from the spec: the computation of a normalized difference. The notebook calls
  the library method \<^verbatim>\<open>image.normalizedDifference\<close>, whose code is not in the repository.
  Section 4.5 of the specification: from two named bands A and B compute
  \<open>(A - B) / (A + B)\<close>; a cell where \<open>A + B = 0\<close> is masked invalid. The library's
  documentation adds that the result is one band named \<^verbatim>\<open>nd\<close> and that a negative sample
  in either band masks the cell.
\<close>

definition nd :: "band \<Rightarrow> band \<Rightarrow> band" where
  "nd a b =
     (\<lambda>p. case a p of None \<Rightarrow> None
          | Some u \<Rightarrow> (case b p of None \<Rightarrow> None
              | Some v \<Rightarrow> (if u < 0 \<or> v < 0 \<or> u + v = 0 then None
                           else Some ((u - v) / (u + v)))))"

definition normalizedDifference :: "image \<Rightarrow> string \<Rightarrow> string \<Rightarrow> error + image" where
  "normalizedDifference img first second =
     and_then (select_band img first) (\<lambda>(n, a).
     and_then (select_band img second) (\<lambda>(m, b).
       Inr [(''nd'', nd a b)]))"

definition ndvi :: "image \<Rightarrow> error + image" where
  "ndvi img = and_then (normalizedDifference img ''B8'' ''B4'') (\<lambda>i. rename i [''NDVI''])"

definition ndwi :: "image \<Rightarrow> error + image" where
  "ndwi img = and_then (normalizedDifference img ''B3'' ''B8'') (\<lambda>i. rename i [''NDWI''])"

definition ndbi :: "image \<Rightarrow> error + image" where
  "ndbi img = and_then (normalizedDifference img ''B11'' ''B8'') (\<lambda>i. rename i [''NDBI''])"

section \<open>Epoch composites\<close>

text \<open>
  A scene of an image collection: its acquisition day, its cloud percentage, the cells it
  covers and its image. A date is a triple of year, month and day, in calendar order.
\<close>

type_synonym date = "nat \<times> nat \<times> nat"

fun date_less :: "date \<Rightarrow> date \<Rightarrow> bool" where
  "date_less (y1, m1, d1) (y2, m2, d2) =
     (y1 < y2 \<or> (y1 = y2 \<and> (m1 < m2 \<or> (m1 = m2 \<and> d1 < d2))))"

record observation =
  system_time_start :: date
  CLOUDY_PIXEL_PERCENTAGE :: real
  footprint :: geometry
  samples :: image

type_synonym collection = "observation list"

text \<open>
  \<^verbatim>\<open>collection.filterBounds(geometry)\<close> keeps the scenes that meet the geometry;
  \<^verbatim>\<open>collection.filterDate(start, end)\<close> keeps the scenes from \<open>start\<close> on and before
  \<open>end\<close>; \<^verbatim>\<open>collection.filter(ee.Filter.lt('CLOUDY_PIXEL_PERCENTAGE', c))\<close> keeps the
  scenes whose cloud percentage is below \<open>c\<close>; \<^verbatim>\<open>collection.map(f)\<close> applies \<open>f\<close> to the
  image of every scene.
\<close>

definition filterBounds :: "collection \<Rightarrow> geometry \<Rightarrow> collection" where
  "filterBounds coll g = filter (\<lambda>ob. list_ex (\<lambda>p. p \<in> set g) (footprint ob)) coll"

definition filterDate :: "collection \<Rightarrow> date \<Rightarrow> date \<Rightarrow> collection" where
  "filterDate coll start end =
     filter (\<lambda>ob. \<not> date_less (system_time_start ob) start \<and> date_less (system_time_start ob) end)
       coll"

definition filter_lt_cloudy :: "collection \<Rightarrow> real \<Rightarrow> collection" where
  "filter_lt_cloudy coll c = filter (\<lambda>ob. CLOUDY_PIXEL_PERCENTAGE ob < c) coll"

definition map_collection :: "(image \<Rightarrow> error + image) \<Rightarrow> collection \<Rightarrow> error + collection" where
  "map_collection f coll =
     collect (map (\<lambda>ob. and_then (f (samples ob)) (\<lambda>i. Inr (ob\<lparr>samples := i\<rparr>))) coll)"

text \<open>
  \<^verbatim>\<open>collection.median()\<close>: for every band of the first scene and every cell, the median of
  the samples that the scenes have there, masked samples left out; the cell is masked when
  no scene has a sample. The median of an even number of samples is taken as the mean of
  the two in the middle; the theorem on the composites uses odd numbers of samples only.
\<close>

definition median_of :: "real list \<Rightarrow> real option" where
  "median_of vs =
     (let s = sort vs; k = length s
      in if k = 0 then None
         else if odd k then Some (s ! (k div 2))
         else Some ((s ! (k div 2 - 1) + s ! (k div 2)) / 2))"

definition samples_over :: "collection \<Rightarrow> string \<Rightarrow> pixel \<Rightarrow> real list" where
  "samples_over coll n p =
     concat (map (\<lambda>ob. case map_of (samples ob) n of None \<Rightarrow> []
                       | Some b \<Rightarrow> (case b p of None \<Rightarrow> [] | Some v \<Rightarrow> [v])) coll)"

definition median :: "collection \<Rightarrow> image" where
  "median coll =
     (case coll of [] \<Rightarrow> []
      | ob # rest \<Rightarrow> map (\<lambda>n. (n, \<lambda>p. median_of (samples_over coll n p)))
                      (bandNames (samples ob)))"

text \<open>
  \<^verbatim>\<open>
  def mask_sentinel2_clouds(image):
      scl = image.select('SCL')  # Scene classification band
      cloud_free = scl.neq(3).And(scl.neq(8)).And(scl.neq(9)).And(scl.neq(10)).And(scl.neq(11))
      return image.updateMask(cloud_free)
  \<close>
\<close>

definition mask_sentinel2_clouds :: "image \<Rightarrow> error + image" where
  "mask_sentinel2_clouds img =
     and_then (select img [''SCL'']) (\<lambda>scl.
     and_then (And_img (neq_num scl 3) (neq_num scl 8)) (\<lambda>c8.
     and_then (And_img c8 (neq_num scl 9)) (\<lambda>c9.
     and_then (And_img c9 (neq_num scl 10)) (\<lambda>c10.
     and_then (And_img c10 (neq_num scl 11)) (\<lambda>cloud_free.
       updateMask img cloud_free)))))"

text \<open>
  From the constants and \<^verbatim>\<open>main\<close>:
  \<^verbatim>\<open>
  PRE_FLOOD_RANGE = ('2024-08-25', '2024-09-25')
  POST_FLOOD_RANGE = ('2024-09-26', '2024-11-25')

  sentinel2 = ee.ImageCollection('COPERNICUS/S2_SR') \
      .filterBounds(ROI) \
      .filterDate(PRE_FLOOD_RANGE[0], POST_FLOOD_RANGE[1]) \
      .filter(ee.Filter.lt('CLOUDY_PIXEL_PERCENTAGE', 40))
  pre_flood = sentinel2.filterDate(PRE_FLOOD_RANGE[0], PRE_FLOOD_RANGE[1]).map(mask_sentinel2_clouds)
  post_flood = sentinel2.filterDate(PRE_FLOOD_RANGE[0], POST_FLOOD_RANGE[1]).map(mask_sentinel2_clouds)
  pre_flood_median = pre_flood.median()
  post_flood_median = post_flood.median()
  \<close>
  The catalogue \<^verbatim>\<open>COPERNICUS/S2_SR\<close> is the argument \<open>catalog\<close>.
\<close>

definition PRE_FLOOD_RANGE :: "date \<times> date" where
  "PRE_FLOOD_RANGE = ((2024, 8, 25), (2024, 9, 25))"

definition POST_FLOOD_RANGE :: "date \<times> date" where
  "POST_FLOOD_RANGE = ((2024, 9, 26), (2024, 11, 25))"

definition sentinel2 :: "collection \<Rightarrow> geometry \<Rightarrow> collection" where
  "sentinel2 catalog ROI =
     filter_lt_cloudy
       (filterDate (filterBounds catalog ROI) (fst PRE_FLOOD_RANGE) (snd POST_FLOOD_RANGE)) 40"

definition pre_flood :: "collection \<Rightarrow> geometry \<Rightarrow> error + collection" where
  "pre_flood catalog ROI =
     map_collection mask_sentinel2_clouds
       (filterDate (sentinel2 catalog ROI) (fst PRE_FLOOD_RANGE) (snd PRE_FLOOD_RANGE))"

definition post_flood :: "collection \<Rightarrow> geometry \<Rightarrow> error + collection" where
  "post_flood catalog ROI =
     map_collection mask_sentinel2_clouds
       (filterDate (sentinel2 catalog ROI) (fst PRE_FLOOD_RANGE) (snd POST_FLOOD_RANGE))"

definition pre_flood_median :: "collection \<Rightarrow> geometry \<Rightarrow> error + image" where
  "pre_flood_median catalog ROI = and_then (pre_flood catalog ROI) (\<lambda>c. Inr (median c))"

definition post_flood_median :: "collection \<Rightarrow> geometry \<Rightarrow> error + image" where
  "post_flood_median catalog ROI = and_then (post_flood catalog ROI) (\<lambda>c. Inr (median c))"

section \<open>Binary64 arithmetic\<close>

text \<open>
  The library computes on binary64 floating-point numbers: every operation gives the exact
  result rounded to the nearest number with a significand of 53 bits, a tie going to the
  even significand. \<open>round64\<close> is that rounding on the reals. For \<open>x > 0\<close>,
  \<open>binade x\<close> is the exponent \<open>e\<close> with \<open>2\<^sup>e \<le> x < 2\<^sup>e\<^sup>+\<^sup>1\<close>, and the numbers with a 53-bit
  significand around \<open>x\<close> are the multiples of \<open>2\<^sup>e\<^sup>-\<^sup>5\<^sup>2\<close>. The exponent is not bounded
  here: overflow and subnormal numbers are not modelled.
\<close>

definition pow2 :: "int \<Rightarrow> real" where
  "pow2 k = (if 0 \<le> k then 2 ^ nat k else 1 / 2 ^ nat (- k))"

definition binade :: "real \<Rightarrow> int" where
  "binade x = (if 1 \<le> x then bitlen \<lfloor>x\<rfloor> - 1 else - bitlen (\<lceil>1 / x\<rceil> - 1))"

definition round_half_even :: "real \<Rightarrow> int" where
  "round_half_even y =
     (let f = \<lfloor>y\<rfloor>; d = y - of_int f
      in if d < 1 / 2 then f else if 1 / 2 < d then f + 1 else if even f then f else f + 1)"


text \<open>
  The mean reducer on the valid samples of a cell, with a rounding \<open>rnd\<close> of the result of
  every operation: the samples are added from the left and the sum is divided by their
  number. With the identity for \<open>rnd\<close> this is \<open>mean_of\<close>.
\<close>

definition mean_with :: "(real \<Rightarrow> real) \<Rightarrow> real list \<Rightarrow> real option" where
  "mean_with rnd vs =
     (if vs = [] then None
      else Some (rnd (foldl (\<lambda>s v. rnd (s + v)) 0 vs / real (length vs))))"

text \<open>
  The arithmetic of \<^verbatim>\<open>pansharpen_simple_mean\<close> at one cell where the bands have the valid
  samples \<open>bs\<close> and the reference has the sample \<open>r\<close>, followed by the mean over the output
  bands: \<open>m\<close> is the mean of \<open>bs\<close>, every output sample is \<open>b + (r - m)\<close>, and the result is
  the mean of the output samples; \<open>rnd\<close> rounds the result of every operation.
\<close>

definition sharpened_mean_with :: "(real \<Rightarrow> real) \<Rightarrow> real list \<Rightarrow> real \<Rightarrow> real option" where
  "sharpened_mean_with rnd bs r =
     (case mean_with rnd bs of
        None \<Rightarrow> None
      | Some m \<Rightarrow> mean_with rnd (map (\<lambda>b. rnd (b + rnd (r - m))) bs))"

section \<open>Sample tables and concrete inputs\<close>

text \<open>The samples of an image on a list of cells, band by band.\<close>

definition tabulate :: "image \<Rightarrow> pixel list \<Rightarrow> (string \<times> real option list) list" where
  "tabulate img ps = map (\<lambda>(n, b). (n, map b ps)) img"

definition cells :: "real list \<Rightarrow> band" where
  "cells vs = (\<lambda>p. if p < length vs then Some (vs ! p) else None)"

definition c2_src :: image where
  "c2_src = [(''B4'', cells [1, 1, 1]), (''B8'', cells [2, 4, 6])]"

definition c2_ref :: image where
  "c2_ref = [(''B8'', cells [10, 20, 30])]"

definition c3_src :: image where
  "c3_src = [(''B8'', cells [5, 5, 5])]"

definition c10_ref :: image where
  "c10_ref = [(''B8'', cells [10, 30, 30]), (''B4'', cells [0, 0, 7])]"

definition c8_ms :: image where
  "c8_ms = [(''B4'', cells [1, 4, 0]), (''B3'', cells [3, 6]), (''B2'', cells [8, 2])]"

definition c8_pan :: image where
  "c8_pan = [(''B8_matched'', cells [4, 4, 0])]"


definition c5_index :: band where
  "c5_index = cells [1/2, 4/5, -1/5, 9/10]"

definition c5_mask :: band where
  "c5_mask = cells [1, 0, 1, 1]"

definition c7_img :: image where
  "c7_img = [(''B4'', cells [1/5, 0, 3/5]), (''B8'', cells [3/5, 0, 1/5])]"

definition c1_scene :: "date \<Rightarrow> real \<Rightarrow> observation" where
  "c1_scene d v =
     \<lparr>system_time_start = d, CLOUDY_PIXEL_PERCENTAGE = 5, footprint = [0],
      samples = [(''SCL'', cells [4]), (''B8'', cells [v])]\<rparr>"

definition c1_catalog :: collection where
  "c1_catalog = [c1_scene (2024, 9, 1) 1, c1_scene (2024, 9, 10) 2, c1_scene (2024, 10, 15) 9]"

definition c4_srtm :: image where
  "c4_srtm = [(''elevation'', \<lambda>p. if p = 0 then Some 60 else if p = 1 then Some 50
                                  else if p = 2 then Some 5 else None)]"

section \<open>Theorems\<close>

subsection \<open>Elevation risk classes\<close>

lemma flood_risk_vis_single:
  "flood_risk_vis ((n, d) # rest) ROI =
     Inr [(n, \<lambda>p. if p \<in> set ROI
                   then map_option (\<lambda>e. (if 50 < e then 1 else 0) * 1
                          + (if (if 50 < e then 0 else 1) \<noteq> (0::real) \<and> (if 10 < e then 1 else 0) \<noteq> (0::real) then 1 else 0) * 2
                          + (if 10 < e then 0 else 1) * 3) (d p)
                   else None)]"
  by (auto simp: flood_risk_vis_def and_then_def select_index_def clip_def gt_num_def
      lte_num_def map_samples_def And_img_def add_img_def combine_def multiply_num_def
      pointwise_def fun_eq_iff split: option.splits)

text \<open>
  C4. For a cell of the region of interest with elevation \<open>e\<close>, the risk raster has one
  band and its sample \<open>c\<close> at that cell is 1 exactly when \<open>e > 50\<close>, 2 exactly when
  \<open>10 < e \<le> 50\<close>, and 3 exactly when \<open>e \<le> 10\<close>.
\<close>

theorem flood_risk_classes:
  assumes "srtm = (n, d) # rest" and "p \<in> set ROI" and "d p = Some e"
  shows "\<exists>r c. flood_risk_vis srtm ROI = Inr [(n, r)] \<and> r p = Some c
           \<and> (c = 1 \<longleftrightarrow> 50 < e) \<and> (c = 2 \<longleftrightarrow> 10 < e \<and> e \<le> 50) \<and> (c = 3 \<longleftrightarrow> e \<le> 10)"
  using assms by (simp add: flood_risk_vis_single)

theorem flood_risk_classes_witness:
  "\<exists>r. flood_risk_vis c4_srtm [0, 1, 2] = Inr [(''elevation'', r)]
       \<and> r 0 = Some 1 \<and> r 1 = Some 2 \<and> r 2 = Some 3"
  using flood_risk_classes [of c4_srtm "''elevation''" "snd (hd c4_srtm)" "[]" 0 "[0, 1, 2]" 60]
    flood_risk_classes [of c4_srtm "''elevation''" "snd (hd c4_srtm)" "[]" 1 "[0, 1, 2]" 50]
    flood_risk_classes [of c4_srtm "''elevation''" "snd (hd c4_srtm)" "[]" 2 "[0, 1, 2]" 5]
  by (auto simp: c4_srtm_def)

subsection \<open>Radiometric matcher\<close>

lemma stats_lookup_min:
  "map_of img n = Some b \<Longrightarrow>
   map_of (reduceRegion_minMax img g scale) (n @ ''_min'') = Some (min_of (samples_in b g))"
  by (induction img) (auto simp: reduceRegion_minMax_def)

lemma stats_lookup_max:
  "map_of img n = Some b \<Longrightarrow>
   map_of (reduceRegion_minMax img g scale) (n @ ''_max'') = Some (max_of (samples_in b g))"
  by (induction img) (auto simp: reduceRegion_minMax_def)

lemma normalize_band:
  assumes "map_of img n = Some b"
    and "min_of (samples_in b g) = Some lo" and "max_of (samples_in b g) = Some hi"
  shows "normalize g scale img n =
           Inr [(n, \<lambda>p. map_option (\<lambda>v. ee_divide (v - lo) (hi - lo)) (b p))]"
  using assms
  by (simp add: normalize_def Let_def get_number_def stats_lookup_min stats_lookup_max
      and_then_def select_def select_band_def divide_num_def subtract_num_def map_samples_def
      option.map_comp comp_def)

lemma matched_band:
  assumes "map_of src n = Some sb" and "map_of ref n = Some rb"
    and "min_of (samples_in sb g) = Some smin" and "max_of (samples_in sb g) = Some smax"
    and "min_of (samples_in rb g) = Some rmin" and "max_of (samples_in rb g) = Some rmax"
  shows "histogram_match_simple src ref n g scale =
           Inr [(n @ ''_matched'',
                 \<lambda>p. map_option (\<lambda>v. ee_divide (v - smin) (smax - smin) * (rmax - rmin) + rmin)
                        (sb p))]"
  using assms
  by (simp add: histogram_match_simple_def Let_def normalize_band get_number_def
      stats_lookup_min stats_lookup_max and_then_def rename_def add_num_def multiply_num_def
      map_samples_def option.map_comp comp_def)

text \<open>
  C2. When the source band's minimum and maximum over the region differ, the matcher
  returns one band, named by the input band's name followed by \<^verbatim>\<open>_matched\<close> (a name
  different from the input's), whose sample at every valid cell is
  \<open>(source - src_min) / (src_max - src_min) * (ref_max - ref_min) + ref_min\<close>; masked cells
  stay masked.
\<close>

theorem histogram_match_linear_rescale:
  assumes "map_of src n = Some sb" and "map_of ref n = Some rb"
    and "min_of (samples_in sb g) = Some smin" and "max_of (samples_in sb g) = Some smax"
    and "min_of (samples_in rb g) = Some rmin" and "max_of (samples_in rb g) = Some rmax"
    and "smin \<noteq> smax"
  shows "histogram_match_simple src ref n g scale =
           Inr [(n @ ''_matched'',
                 \<lambda>p. map_option (\<lambda>v. (v - smin) / (smax - smin) * (rmax - rmin) + rmin) (sb p))]
         \<and> n @ ''_matched'' \<noteq> n"
  using assms by (simp add: matched_band ee_divide_def)

theorem histogram_match_linear_rescale_witness:
  "histogram_match_simple c2_src c2_ref ''B8'' [0, 1, 2] 10 =
     Inr [(''B8_matched'',
           \<lambda>p. map_option (\<lambda>v. (v - 2) / (6 - 2) * (30 - 10) + 10) (cells [2, 4, 6] p))]
   \<and> tabulate [(''B8_matched'',
           \<lambda>p. map_option (\<lambda>v. (v - 2) / (6 - 2) * (30 - 10) + 10) (cells [2, 4, 6] p))] [0, 1, 2]
       = [(''B8_matched'', [Some 10, Some 20, Some 30])]"
  using histogram_match_linear_rescale [of c2_src "''B8''" "cells [2, 4, 6]" c2_ref
      "cells [10, 20, 30]" "[0, 1, 2]" 2 6 10 30 10]
  by (simp add: c2_src_def c2_ref_def samples_in_def min_of_def max_of_def cells_def
      tabulate_def)

text \<open>
  C3, as the notebook has it. The matcher has no check of the source range and no error of
  its own. When the source band's minimum equals its maximum over the region, the
  library's division by the zero range gives 0, no error is signalled, and the matcher
  returns the band \<^verbatim>\<open><band>_matched\<close> whose sample at every valid source cell is the
  reference minimum.
\<close>

theorem histogram_match_degenerate_range:
  assumes "map_of src n = Some sb" and "map_of ref n = Some rb"
    and "min_of (samples_in sb g) = Some smin" and "max_of (samples_in sb g) = Some smax"
    and "min_of (samples_in rb g) = Some rmin" and "max_of (samples_in rb g) = Some rmax"
    and "smin = smax"
  shows "histogram_match_simple src ref n g scale =
           Inr [(n @ ''_matched'', \<lambda>p. map_option (\<lambda>v. rmin) (sb p))]"
  using assms by (simp add: matched_band ee_divide_def)

theorem histogram_match_degenerate_range_witness:
  "histogram_match_simple c3_src c2_ref ''B8'' [0, 1, 2] 10 =
     Inr [(''B8_matched'', \<lambda>p. map_option (\<lambda>v. 10) (cells [5, 5, 5] p))]"
  using histogram_match_degenerate_range [of c3_src "''B8''" "cells [5, 5, 5]" c2_ref
      "cells [10, 20, 30]" "[0, 1, 2]" 5 5 10 30 10]
  by (simp add: c3_src_def c2_ref_def samples_in_def min_of_def max_of_def cells_def)

text \<open>
  The claim as the specification states it fails: on a source band that is constant over
  the region the matcher returns an image, not an error.
\<close>

theorem histogram_match_degenerate_counterexample:
  "\<not> isl (histogram_match_simple c3_src c2_ref ''B8'' [0, 1, 2] 10)
   \<and> min_of (samples_in (cells [5, 5, 5]) [0, 1, 2]) = max_of (samples_in (cells [5, 5, 5]) [0, 1, 2])
   \<and> tabulate (projr (histogram_match_simple c3_src c2_ref ''B8'' [0, 1, 2] 10)) [0, 1, 2]
       = [(''B8_matched'', [Some 10, Some 10, Some 10])]"
proof -
  have "histogram_match_simple c3_src c2_ref ''B8'' [0, 1, 2] 10 =
          Inr [(''B8'' @ ''_matched'',
                \<lambda>p. map_option (\<lambda>v. ee_divide (v - 5) (5 - 5) * (30 - 10) + 10)
                       (cells [5, 5, 5] p))]"
    by (rule matched_band [where rb = "cells [10, 20, 30]"])
       (simp_all add: c3_src_def c2_ref_def samples_in_def min_of_def max_of_def cells_def)
  then show ?thesis
    by (simp add: tabulate_def cells_def ee_divide_def samples_in_def min_of_def max_of_def)
qed

text \<open>
  C10. The matcher reads the reference image only through the two numbers it takes from
  the reference's region statistics: two reference images that give the same minimum and
  the same maximum for the named band (or fail there in the same way) give the same
  result.
\<close>

theorem histogram_match_reference_only_through_stats:
  assumes "get_number (reduceRegion_minMax ref1 g scale) (n @ ''_min'')
             = get_number (reduceRegion_minMax ref2 g scale) (n @ ''_min'')"
    and "get_number (reduceRegion_minMax ref1 g scale) (n @ ''_max'')
             = get_number (reduceRegion_minMax ref2 g scale) (n @ ''_max'')"
  shows "histogram_match_simple src ref1 n g scale = histogram_match_simple src ref2 n g scale"
  using assms by (simp add: histogram_match_simple_def Let_def)

theorem histogram_match_reference_only_through_stats_witness:
  "tabulate c2_ref [0, 1, 2] \<noteq> tabulate c10_ref [0, 1, 2]
   \<and> histogram_match_simple c2_src c2_ref ''B8'' [0, 1, 2] 10
       = histogram_match_simple c2_src c10_ref ''B8'' [0, 1, 2] 10"
proof -
  have a: "get_number (reduceRegion_minMax c2_ref [0, 1, 2] 10) (''B8'' @ ''_min'')
         = get_number (reduceRegion_minMax c10_ref [0, 1, 2] 10) (''B8'' @ ''_min'')"
    by (simp add: c2_ref_def c10_ref_def reduceRegion_minMax_def get_number_def
      samples_in_def min_of_def max_of_def cells_def)
  have b: "get_number (reduceRegion_minMax c2_ref [0, 1, 2] 10) (''B8'' @ ''_max'')
         = get_number (reduceRegion_minMax c10_ref [0, 1, 2] 10) (''B8'' @ ''_max'')"
    by (simp add: c2_ref_def c10_ref_def reduceRegion_minMax_def get_number_def
      samples_in_def min_of_def max_of_def cells_def)
  have c: "tabulate c2_ref [0, 1, 2] \<noteq> tabulate c10_ref [0, 1, 2]"
    by (simp add: c2_ref_def c10_ref_def tabulate_def)
  show ?thesis
    using histogram_match_reference_only_through_stats [OF a b, of c2_src] c by simp
qed


subsection \<open>Fusion sharpener\<close>


lemma collect_and_then:
  "collect (map (\<lambda>x. and_then (f x) (\<lambda>y. Inr (g y))) xs) =
     and_then (collect (map f xs)) (\<lambda>ys. Inr (map g ys))"
proof (induction xs)
  case Nil
  then show ?case by (simp add: and_then_def)
next
  case (Cons x xs)
  then show ?case
    by (cases "f x"; cases "collect (map f xs)") (simp_all add: and_then_def)
qed

lemma collect_map_all:
  assumes "\<And>x y. f x = Inr y \<Longrightarrow> P y"
  shows "collect (map f xs) = Inr ys \<Longrightarrow> list_all P ys"
proof (induction xs arbitrary: ys)
  case Nil
  then show ?case by simp
next
  case (Cons x xs)
  then show ?case
    by (cases "f x"; cases "collect (map f xs)") (auto simp: and_then_def assms)
qed

lemma collect_map_inverse:
  assumes "\<And>x y. f x = Inr y \<Longrightarrow> g y = x"
  shows "collect (map f xs) = Inr ys \<Longrightarrow> map g ys = xs"
proof (induction xs arbitrary: ys)
  case Nil
  then show ?case by simp
next
  case (Cons x xs)
  then show ?case
    by (cases "f x"; cases "collect (map f xs)") (auto simp: and_then_def assms)
qed

lemma select_subset:
  assumes "select ms bs = Inr sel"
  shows "set sel \<subseteq> set ms"
proof -
  have "list_all (\<lambda>y. y \<in> set ms) sel"
  proof (rule collect_map_all [where f = "select_band ms"])
    show "collect (map (select_band ms) bs) = Inr sel"
      using assms by (simp add: select_def)
  next
    fix x y
    assume "select_band ms x = Inr y"
    then show "y \<in> set ms"
      by (auto simp: select_band_def split: option.splits dest: map_of_SomeD)
  qed
  then show ?thesis by (auto simp: list_all_iff)
qed

lemma select_names:
  assumes "select ms bs = Inr sel"
  shows "map fst sel = bs"
proof (rule collect_map_inverse [where f = "select_band ms"])
  show "collect (map (select_band ms) bs) = Inr sel"
    using assms by (simp add: select_def)
next
  fix x y
  assume "select_band ms x = Inr y"
  then show "fst y = x"
    by (auto simp: select_band_def split: option.splits)
qed


lemma select_all:
  assumes "distinct (map fst ms)"
  shows "select ms (map fst ms) = Inr ms"
proof -
  have "collect (map (select_band ms) (map fst xs)) = Inr xs" if "set xs \<subseteq> set ms" for xs
    using that
  proof (induction xs)
    case Nil
    then show ?case by simp
  next
    case (Cons x xs)
    then have "map_of ms (fst x) = Some (snd x)"
      using assms by (cases x) simp
    with Cons show ?case by (simp add: select_band_def and_then_def)
  qed
  then show ?thesis by (simp add: select_def)
qed

lemma sharpen_one:
  assumes "map_of ms n = Some b"
  shows "and_then (select ms [n]) (\<lambda>sel.
           and_then (subtract_img [(pn, r)] (reduce_mean ms)) (\<lambda>detail. add_img sel detail))
         = Inr [(n, inject r (\<lambda>p. mean_of (valid_at ms p)) b)]"
  using assms
  by (simp add: select_def select_band_def and_then_def subtract_img_def add_img_def
      combine_def reduce_mean_def inject_def)

lemma pansharpen_general:
  assumes "bands \<noteq> []"
  shows "pansharpen_simple_mean ms [(pn, r)] bands =
     and_then (select ms bands)
       (\<lambda>sel. Inr (map (\<lambda>(n, b). (n, inject r (\<lambda>p. mean_of (valid_at ms p)) b)) sel))"
proof -
  let ?f = "\<lambda>band. and_then (select ms [band]) (\<lambda>sel.
              and_then (subtract_img [(pn, r)] (reduce_mean ms)) (\<lambda>detail. add_img sel detail))"
  let ?h = "\<lambda>(n, b). (n, inject r (\<lambda>p. mean_of (valid_at ms p)) b)"
  have one: "?f = (\<lambda>n. and_then (select_band ms n) (\<lambda>x. Inr [?h x]))"
  proof
    fix n
    show "?f n = and_then (select_band ms n) (\<lambda>x. Inr [?h x])"
    proof (cases "map_of ms n")
      case None
      then show ?thesis by (simp add: select_def select_band_def and_then_def)
    next
      case (Some b)
      then show ?thesis by (simp add: sharpen_one) (simp add: select_band_def and_then_def)
    qed
  qed
  have "collect (map ?f bands) =
          collect (map (\<lambda>n. and_then (select_band ms n) (\<lambda>x. Inr [?h x])) bands)"
    by (simp only: one)
  also have "\<dots> = and_then (collect (map (select_band ms) bands))
                      (\<lambda>sel. Inr (map (\<lambda>x. [?h x]) sel))"
    by (rule collect_and_then)
  finally have coll: "collect (map ?f bands) =
                and_then (select ms bands) (\<lambda>sel. Inr (map (\<lambda>x. [?h x]) sel))"
    by (simp only: select_def)
  show ?thesis
  proof (cases "select ms bands")
    case (Inl e)
    then show ?thesis
      unfolding pansharpen_simple_mean_def Let_def coll by (simp add: and_then_def)
  next
    case (Inr sel)
    have names: "map fst sel = bands" by (rule select_names [OF Inr])
    then have len: "length bands = length sel" by (metis length_map)
    have ne: "sel \<noteq> []" using names assms by auto
    have "concat (map (\<lambda>x. [?h x]) sel) = map ?h sel"
      by (induction sel) simp_all
    then have c: "cat (map (\<lambda>x. [?h x]) sel) = Inr (map ?h sel)"
      using ne by (simp add: cat_def)
    have z: "zip (map fst sel) (map snd (map ?h sel)) = map ?h sel"
      by (induction sel) auto
    show ?thesis
      unfolding pansharpen_simple_mean_def Let_def coll
      using Inr len z by (simp add: and_then_def c rename_def names)
  qed
qed

lemma valid_sample_in_valid_at:
  "(n, b) \<in> set ms \<Longrightarrow> b p = Some v \<Longrightarrow> v \<in> set (valid_at ms p)"
  by (induction ms) (auto simp: valid_at_def)

lemma inject_mean_id:
  assumes "(n, b) \<in> set ms" and "\<And>p. r p = mean_of (valid_at ms p)"
  shows "inject r (\<lambda>p. mean_of (valid_at ms p)) b = b"
proof
  fix p
  show "inject r (\<lambda>p. mean_of (valid_at ms p)) b p = b p"
  proof (cases "b p")
    case None
    then show ?thesis by (simp add: inject_def pointwise_def)
  next
    case (Some v)
    then have "valid_at ms p \<noteq> []"
      using valid_sample_in_valid_at [OF assms(1) Some] by auto
    then show ?thesis
      using Some assms(2) [of p] by (simp add: inject_def pointwise_def mean_of_def)
  qed
qed

text \<open>
  C8. When the reference band equals, at every cell, the mean of the input's bands that
  are valid there, and the band list is not empty, the sharpener returns the bands it was
  asked for exactly as the input has them (\<open>select\<close> of the input by the band list). When the band list names the
  bands of the input, in band order and each once, the result is the input itself: the
  same band names, the same number of bands, and every band with the same samples and the
  same mask.
\<close>

theorem pansharpen_reference_is_mean:
  assumes "\<And>p. r p = mean_of (valid_at ms p)" and "bands \<noteq> []"
  shows "pansharpen_simple_mean ms [(pn, r)] bands = select ms bands
         \<and> (distinct (bandNames ms) \<and> bands = bandNames ms
              \<longrightarrow> pansharpen_simple_mean ms [(pn, r)] bands = Inr ms)"
proof -
  have same: "map (\<lambda>(n, b). (n, inject r (\<lambda>p. mean_of (valid_at ms p)) b)) sel = sel"
    if "select ms bands = Inr sel" for sel
  proof -
    have "set sel \<subseteq> set ms"
      by (rule select_subset [OF that])
    then show ?thesis
      by (intro map_idI) (auto simp: inject_mean_id [OF _ assms(1)])
  qed
  have "pansharpen_simple_mean ms [(pn, r)] bands = select ms bands"
    by (cases "select ms bands")
       (simp_all add: pansharpen_general [OF assms(2)] and_then_def same)
  then show ?thesis
    by (auto simp: bandNames_def select_all)
qed

lemma c8_pan_is_mean: "cells [4, 4, 0] p = mean_of (valid_at c8_ms p)"
proof -
  consider "p = 0" | "p = 1" | "p = 2" | "3 \<le> p" by linarith
  then show ?thesis
    by cases (simp_all add: c8_ms_def cells_def valid_at_def mean_of_def)
qed

theorem pansharpen_reference_is_mean_witness:
  "pansharpen_simple_mean c8_ms c8_pan [''B4'', ''B3'', ''B2''] = Inr c8_ms
   \<and> pansharpen_simple_mean c8_ms c8_pan [''B2''] = Inr [(''B2'', cells [8, 2])]"
proof -
  have d: "distinct (bandNames c8_ms)" by (simp add: bandNames_def c8_ms_def)
  have b: "bandNames c8_ms = [''B4'', ''B3'', ''B2'']" by (simp add: bandNames_def c8_ms_def)
  have s: "select c8_ms [''B2''] = Inr [(''B2'', cells [8, 2])]"
    by (simp add: select_def select_band_def and_then_def c8_ms_def)
  have ne: "bandNames c8_ms \<noteq> []" by (simp add: b)
  have full: "pansharpen_simple_mean c8_ms [(''B8_matched'', cells [4, 4, 0])] (bandNames c8_ms)
                = Inr c8_ms"
    using pansharpen_reference_is_mean [OF c8_pan_is_mean ne, of "''B8_matched''"] d
    by blast
  have one: "pansharpen_simple_mean c8_ms [(''B8_matched'', cells [4, 4, 0])] [''B2'']
               = Inr [(''B2'', cells [8, 2])]"
    using pansharpen_reference_is_mean [OF c8_pan_is_mean, of "[''B2'']" "''B8_matched''"] s
    by simp
  show ?thesis
    using full one unfolding b c8_pan_def by simp
qed

lemma valid_at_inject:
  "valid_at (map (\<lambda>(n, b). (n, inject r m b)) ms) p =
     (case r p of None \<Rightarrow> []
      | Some rv \<Rightarrow> (case m p of None \<Rightarrow> []
                   | Some mv \<Rightarrow> map (\<lambda>v. v + (rv - mv)) (valid_at ms p)))"
  by (induction ms) (auto simp: valid_at_def inject_def pointwise_def split: option.splits)







text \<open>
  The exponent that \<open>binade\<close> computes brackets its argument and the rounding to an
  integer is off by a half at most. In exact arithmetic the cell computation is the one of
  the model: its mean is \<open>mean_of\<close>, it is what the sharpener followed by the mean reducer
  gives at a cell, and the mean of the sharpened samples is the reference.
\<close>

lemma bitlen_step: "bitlen x = (if 0 < x then bitlen (x div 2) + 1 else 0)"
  by (rule compute_bitlen)

lemma bitlen_pos: "0 < n \<Longrightarrow> 0 < bitlen n"
  using bitlen_nonneg [of "n div 2"] by (subst bitlen_step) simp

lemma binade_bracket:
  assumes "0 < x"
  shows "pow2 (binade x) \<le> x \<and> x < pow2 (binade x + 1)"
proof (cases "1 \<le> x")
  case True
  define n where "n = \<lfloor>x\<rfloor>"
  have n: "0 < n" using True by (simp add: n_def)
  have b: "2 ^ nat (bitlen n - 1) \<le> n" "n < 2 ^ nat (bitlen n)"
    using bitlen_bounds [OF n] by auto
  have pos: "0 < bitlen n" using n by (rule bitlen_pos)
  have "real_of_int (2 ^ nat (bitlen n - 1)) \<le> real_of_int n"
    using b(1) by linarith
  also have "\<dots> \<le> x" by (simp add: n_def)
  finally have lo: "2 ^ nat (bitlen n - 1) \<le> x" by simp
  have "n + 1 \<le> 2 ^ nat (bitlen n)" using b(2) by linarith
  then have "real_of_int (n + 1) \<le> real_of_int (2 ^ nat (bitlen n))" by linarith
  moreover have "x < real_of_int (n + 1)" by (simp add: n_def)
  ultimately have hi: "x < 2 ^ nat (bitlen n)" by simp
  show ?thesis
    using True lo hi pos by (simp add: binade_def pow2_def n_def [symmetric])
next
  case False
  define c where "c = \<lceil>1 / x\<rceil>"
  define k where "k = bitlen (c - 1)"
  have inv: "1 < 1 / x" using False assms by simp
  then have c2: "0 < c - 1" unfolding c_def by linarith
  have b: "2 ^ nat (k - 1) \<le> c - 1" "c - 1 < 2 ^ nat k"
    using bitlen_bounds [OF c2] by (auto simp: k_def)
  have kpos: "0 < k" using c2 unfolding k_def by (rule bitlen_pos)
  have "1 / x \<le> real_of_int c" by (simp add: c_def)
  also have "real_of_int c \<le> real_of_int (2 ^ nat k)" using b(2) by linarith
  finally have "1 / x \<le> 2 ^ nat k" by simp
  then have lo: "1 / 2 ^ nat k \<le> x"
    using assms by (simp add: field_simps)
  have "real_of_int (2 ^ nat (k - 1)) \<le> real_of_int (c - 1)" using b(1) by linarith
  also have "real_of_int (c - 1) < 1 / x" unfolding c_def by linarith
  finally have "2 ^ nat (k - 1) < 1 / x" by simp
  then have hi: "x < 1 / 2 ^ nat (k - 1)"
    using assms by (simp add: field_simps)
  have e: "binade x = - k" using False by (simp add: binade_def k_def c_def)
  show ?thesis
  proof (cases "k = 1")
    case True
    then show ?thesis using lo False by (simp add: e pow2_def)
  next
    case False
    then have "nat (k - 1) = nat (- (1 - k))" "\<not> 0 \<le> 1 - k" using kpos by auto
    then show ?thesis using lo hi kpos by (simp add: e pow2_def)
  qed
qed

lemma foldl_plus: "foldl (\<lambda>s v. s + v) a vs = a + sum_list (vs :: real list)"
  by (induction vs arbitrary: a) simp_all

lemma mean_with_exact: "mean_with id vs = mean_of vs"
  by (simp add: mean_with_def mean_of_def foldl_plus)

lemma round_half_even_near: "\<bar>real_of_int (round_half_even y) - y\<bar> \<le> 1 / 2"
  by (auto simp: round_half_even_def Let_def)

lemma sharpened_mean_is_model:
  assumes "distinct (bandNames ms)" and "ms \<noteq> []" and "r p = Some rv"
  shows "\<exists>out. pansharpen_simple_mean ms [(pn, r)] (bandNames ms) = Inr out
           \<and> mean_of (valid_at out p) = sharpened_mean_with id (valid_at ms p) rv"
proof -
  let ?m = "\<lambda>p. mean_of (valid_at ms p)"
  let ?out = "map (\<lambda>(n, b). (n, inject r ?m b)) ms"
  have ne: "bandNames ms \<noteq> []" using assms(2) by (simp add: bandNames_def)
  have sel: "select ms (bandNames ms) = Inr ms"
    using assms(1) by (simp add: bandNames_def select_all)
  have out: "pansharpen_simple_mean ms [(pn, r)] (bandNames ms) = Inr ?out"
    by (simp add: pansharpen_general [OF ne] sel and_then_def)
  have "mean_of (valid_at ?out p) = sharpened_mean_with id (valid_at ms p) rv"
    using assms(3)
    by (simp add: valid_at_inject sharpened_mean_with_def mean_with_exact split: option.splits)
       (simp add: mean_of_def)
  with out show ?thesis by blast
qed



subsection \<open>Area aggregator\<close>

lemma zip_with_map: "zip xs (map f xs) = map (\<lambda>x. (x, f x)) xs"
  by (induction xs) simp_all

lemma updateMask_gt:
  "updateMask img (gt_num img t) = Inr (map (\<lambda>(n, x). (n, significant t x)) img)"
proof -
  have m: "mask_band x (\<lambda>p. map_option (\<lambda>v. if above v t then 1 else 0) (x p)) = significant t x"
    for x :: band
    by (auto simp: mask_band_def significant_def fun_eq_iff split: option.splits)
  show ?thesis
  proof (cases "length img = 1")
    case True
    then obtain n x where "img = [(n, x)]"
      by (cases img) (auto simp: length_Suc_conv)
    then show ?thesis
      by (simp add: updateMask_def gt_num_def map_samples_def m)
  next
    case False
    then show ?thesis
      by (simp add: updateMask_def gt_num_def map_samples_def zip_with_map m
          case_prod_unfold comp_def)
  qed
qed

lemma multiply_pixelArea:
  "multiply_img img (pixelArea a) =
     Inr (map (\<lambda>(n, x). (n, \<lambda>p. map_option (\<lambda>v. v * a p) (x p))) img)"
proof -
  have m: "pointwise (\<lambda>u v. u * v) x (\<lambda>p. Some (a p)) = (\<lambda>p. map_option (\<lambda>v. v * a p) (x p))"
    for x :: band
    by (auto simp: pointwise_def fun_eq_iff split: option.splits)
  show ?thesis
  proof (cases "length img = 1")
    case True
    then obtain n x where "img = [(n, x)]"
      by (cases img) (auto simp: length_Suc_conv)
    then show ?thesis
      by (simp add: multiply_img_def combine_def pixelArea_def m)
  next
    case False
    then show ?thesis
      by (simp add: multiply_img_def combine_def pixelArea_def m)
  qed
qed

lemma samples_in_weighted:
  "sum_list (samples_in (\<lambda>p. map_option (\<lambda>v. v * a p) (significant t b p)) roi) =
     sum_list (map (\<lambda>p. case b p of None \<Rightarrow> 0
                        | Some v \<Rightarrow> (if above v t then v * a p else 0)) roi)"
  by (induction roi) (auto simp: samples_in_def significant_def split: option.splits)

lemma calculate_area_first_band:
  "calculate_area a ((n, b) # rest) roi t =
     Inr (sum_list (map (\<lambda>p. case b p of None \<Rightarrow> 0
                             | Some v \<Rightarrow> (if above v t then v * a p else 0)) roi) / 1000000)"
  by (simp add: calculate_area_def updateMask_gt multiply_pixelArea and_then_def Let_def
      list_get_def bandNames_def reduceRegion_sum_def area_km2_of_def samples_in_weighted)

text \<open>
  C5. The aggregator's result is the sum, over the cells of the region, of
  \<open>value * ground area\<close> for the cells that are valid and whose value is strictly above
  the threshold, divided by \<open>10\<^sup>6\<close> (square metres to square kilometres); a cell that is
  masked or whose value is at or below the threshold adds nothing. In particular a cell
  that a mask has made invalid adds nothing, whatever sample lies under the mask.
\<close>

theorem calculate_area_counts_only_significant:
  "calculate_area a ((n, b) # rest) roi t =
     Inr (sum_list (map (\<lambda>p. case b p of None \<Rightarrow> 0
                             | Some v \<Rightarrow> (if above v t then v * a p else 0)) roi) / 1000000)
   \<and> and_then (updateMask [(n, b0)] [(k, m)]) (\<lambda>img. calculate_area a img roi t) =
     Inr (sum_list (map (\<lambda>p. case m p of None \<Rightarrow> 0
                             | Some w \<Rightarrow> (if w = 0 then 0
                                 else (case b0 p of None \<Rightarrow> 0
                                       | Some v \<Rightarrow> (if above v t then v * a p else 0)))) roi)
          / 1000000)"
proof -
  have "(case mask_band b0 m p of None \<Rightarrow> 0 | Some v \<Rightarrow> (if above v t then v * a p else 0))
      = (case m p of None \<Rightarrow> 0
         | Some w \<Rightarrow> (if w = 0 then 0
             else (case b0 p of None \<Rightarrow> 0 | Some v \<Rightarrow> (if above v t then v * a p else 0))))"
    for p
    by (simp add: mask_band_def split: option.splits)
  then show ?thesis
    by (simp add: calculate_area_first_band updateMask_def and_then_def)
qed

theorem calculate_area_counts_only_significant_witness:
  "calculate_area (\<lambda>p. 100) [(''NDWI'', c5_index)] [0, 1, 2] (Finite (1/1000)) = Inr (13 / 100000)
   \<and> and_then (updateMask [(''NDWI'', c5_index)] [(''valid'', c5_mask)])
        (\<lambda>img. calculate_area (\<lambda>p. 100) img [0, 1, 2] (Finite (1/1000))) = Inr (5 / 100000)"
  using calculate_area_counts_only_significant [of "\<lambda>p. 100" "''NDWI''" c5_index "[]" "[0, 1, 2]"
      "Finite (1/1000)" c5_index "''valid''" c5_mask]
  by (simp add: c5_index_def c5_mask_def cells_def)

text \<open>
  C6. The aggregator returns 0 and no error when the band's name is not a key of the
  aggregation result, when no valid cell of the region lies above the threshold, and, for
  every image with a band, when the threshold is plus infinity.
\<close>

theorem calculate_area_zero:
  "(map_of area_stats_dict band_name = None \<longrightarrow> area_km2_of area_stats_dict band_name = 0)
   \<and> ((\<forall>p \<in> set roi. \<forall>v. b p = Some v \<longrightarrow> \<not> above v t)
        \<longrightarrow> calculate_area a ((n, b) # rest) roi t = Inr 0)
   \<and> calculate_area a ((n, b) # rest) roi PosInf = Inr 0"
proof -
  have zero: "sum_list (map (\<lambda>p. case b p of None \<Rightarrow> 0
                 | Some v \<Rightarrow> (if above v t' then v * a p else 0)) roi) = 0"
    if "\<forall>p \<in> set roi. \<forall>v. b p = Some v \<longrightarrow> \<not> above v t'" for t'
    using that by (induction roi) (auto split: option.splits)
  show ?thesis
    using zero [of t] zero [of PosInf]
    by (simp add: calculate_area_first_band area_km2_of_def)
qed

theorem calculate_area_zero_witness:
  "area_km2_of [] ''NDWI'' = 0
   \<and> calculate_area (\<lambda>p. 100) [(''NDWI'', c5_index)] [0, 1, 2] (Finite 1) = Inr 0
   \<and> calculate_area (\<lambda>p. 100) [(''NDWI'', c5_index)] [0, 1, 2] PosInf = Inr 0"
  using calculate_area_zero [of "[]" "''NDWI''" "[0, 1, 2]" c5_index "Finite 1" "\<lambda>p. 100"
      "''NDWI''" "[]"]
  by (simp add: c5_index_def cells_def)


subsection \<open>Index engine\<close>

text \<open>
  C7. On the normalized difference as modelled from the specification: for two bands A
  and B of an image, the normalized difference of (B, A) is masked exactly where that of
  (A, B) is, and at every other cell it is the negative of it; a cell where \<open>A + B = 0\<close>
  is masked in both.
\<close>

theorem normalizedDifference_antisymmetric:
  assumes "map_of img A = Some a" and "map_of img B = Some b"
  shows "\<exists>x y. normalizedDifference img A B = Inr [(''nd'', x)]
           \<and> normalizedDifference img B A = Inr [(''nd'', y)]
           \<and> (\<forall>p. y p = map_option uminus (x p))
           \<and> (\<forall>p u v. a p = Some u \<and> b p = Some v \<and> u + v = 0 \<longrightarrow> x p = None \<and> y p = None)"
proof -
  have "nd b a p = map_option uminus (nd a b p)" for p
    by (auto simp: nd_def add.commute split: option.splits)
       (simp add: minus_divide_left)
  moreover have "nd a b p = None \<and> nd b a p = None"
    if "a p = Some u" "b p = Some v" "u + v = 0" for p u v
    using that by (simp add: nd_def add.commute)
  ultimately have "(\<forall>p. nd b a p = map_option uminus (nd a b p))
      \<and> (\<forall>p u v. a p = Some u \<and> b p = Some v \<and> u + v = 0 \<longrightarrow> nd a b p = None \<and> nd b a p = None)"
    by blast
  then show ?thesis
    using assms
    by (simp add: normalizedDifference_def select_band_def and_then_def)
qed

theorem normalizedDifference_antisymmetric_witness:
  "\<exists>x y. normalizedDifference c7_img ''B8'' ''B4'' = Inr [(''nd'', x)]
      \<and> normalizedDifference c7_img ''B4'' ''B8'' = Inr [(''nd'', y)]
      \<and> map x [0, 1, 2] = [Some (1/2), None, Some (- 1/2)]
      \<and> map y [0, 1, 2] = [Some (- 1/2), None, Some (1/2)]"
proof -
  obtain x y where xy: "normalizedDifference c7_img ''B8'' ''B4'' = Inr [(''nd'', x)]"
      "normalizedDifference c7_img ''B4'' ''B8'' = Inr [(''nd'', y)]"
      "\<forall>p. y p = map_option uminus (x p)"
    using normalizedDifference_antisymmetric [of c7_img "''B8''" "cells [3/5, 0, 1/5]" "''B4''"
        "cells [1/5, 0, 3/5]"]
    by (auto simp: c7_img_def)
  have "x = nd (cells [3/5, 0, 1/5]) (cells [1/5, 0, 3/5])"
    using xy(1) by (simp add: normalizedDifference_def select_band_def and_then_def c7_img_def)
  then have "map x [0, 1, 2] = [Some (1/2), None, Some (- 1/2)]"
    by (simp add: nd_def cells_def)
  with xy show ?thesis by auto
qed

subsection \<open>Epoch composites\<close>

lemma mask_clear_scene:
  "mask_sentinel2_clouds [(''SCL'', cells [4]), (''B8'', cells [v])]
     = Inr [(''SCL'', cells [4]), (''B8'', cells [v])]"
  by (auto simp: mask_sentinel2_clouds_def select_def select_band_def and_then_def And_img_def
      combine_def neq_num_def map_samples_def updateMask_def pointwise_def mask_band_def
      cells_def fun_eq_iff)

lemma c1_post_flood:
  "post_flood c1_catalog [0] = Inr c1_catalog"
  by (simp add: post_flood_def sentinel2_def filterDate_def filterBounds_def
      filter_lt_cloudy_def PRE_FLOOD_RANGE_def POST_FLOOD_RANGE_def c1_catalog_def c1_scene_def
      map_collection_def and_then_def mask_clear_scene)

text \<open>
  C1. The collection \<^verbatim>\<open>post_flood\<close> is filtered from the first day of the pre-event range:
  on a catalogue of three clear scenes of 1 and 10 September and 15 October 2024, whose
  band B8 is 1, 2 and 9 at cell 0, all three scenes are in \<^verbatim>\<open>post_flood\<close> and the
  composite \<^verbatim>\<open>post_flood_median\<close> has the median 2 of the three, where the scenes of the
  post-event range alone give 9.
\<close>

theorem post_flood_median_uses_pre_event_scenes:
  "map system_time_start (projr (post_flood c1_catalog [0]))
     = [(2024, 9, 1), (2024, 9, 10), (2024, 10, 15)]
   \<and> tabulate (projr (post_flood_median c1_catalog [0])) [0]
     = [(''SCL'', [Some 4]), (''B8'', [Some 2])]
   \<and> tabulate (median (filterDate (projr (post_flood c1_catalog [0]))
                  (fst POST_FLOOD_RANGE) (snd POST_FLOOD_RANGE))) [0]
     = [(''SCL'', [Some 4]), (''B8'', [Some 9])]"
  by (simp add: c1_post_flood post_flood_median_def and_then_def)
     (simp add: c1_catalog_def c1_scene_def median_def bandNames_def tabulate_def
      samples_over_def median_of_def cells_def filterDate_def POST_FLOOD_RANGE_def)

end
